theory Spec2Isabelle
  imports Main
begin

section \<open>A promise-based modal host: the model\<close>

text \<open>
  The development embeds \<^verbatim>\<open>src/lib/context/ModalContext.tsx\<close> (the provider
  component \<^verbatim>\<open>AsyncModalProvider\<close> with its two operations \<^verbatim>\<open>showModal\<close> and
  \<^verbatim>\<open>handleClose\<close>) and \<^verbatim>\<open>src/lib/hooks/useAsyncModal.ts\<close> (the hook).

  Conventions of the embedding:
  \<^item> an optional field or parameter (\<^verbatim>\<open>dismissible?\<close>, \<^verbatim>\<open>data?\<close>, \<^verbatim>\<open>result?\<close>) and a
    nullable cell (\<^verbatim>\<open>T | null\<close>) is an \<open>option\<close>: \<open>None\<close> is \<^verbatim>\<open>undefined\<close>
    (respectively \<^verbatim>\<open>null\<close>);
  \<^item> the type parameters \<^verbatim>\<open>R\<close> (result) and \<^verbatim>\<open>P\<close> (payload) are the type variables
    \<open>'r\<close> and \<open>'p\<close>; a component (\<^verbatim>\<open>ComponentType\<close>) is an opaque value of type \<open>'m\<close>.
    A result handed to \<^verbatim>\<open>onClose\<close> is a plain value of \<open>'r\<close>, \<^verbatim>\<open>undefined\<close>, or a
    thenable (nothing in the types keeps \<^verbatim>\<open>R\<close> from being a promise type);
  \<^item> the promise objects created by the host live in an explicit heap, a list addressed
    by index; the promise returned by \<^verbatim>\<open>showModal\<close> is its index. The \<^verbatim>\<open>async\<close>
    wrapper of \<^verbatim>\<open>showModal\<close> returns a promise that adopts the state of the promise
    built in its body; the model identifies the two. A promise that adopts a thenable
    takes the state the thenable ends in: the model records that final state at once;
  \<^item> each operation runs to completion (the event loop is single threaded), and the
    state set by \<^verbatim>\<open>setRenderModal\<close> is the one the next render reads.
\<close>

subsection \<open>Promises\<close>

text \<open>
  The state of a promise. \<open>Locked\<close> is the state of a promise that was resolved with a
  thenable which never settles: it is unsettled for ever, and its settlement functions
  do nothing any more.
\<close>

datatype 'r promise = Pending | Locked | Fulfilled "'r option" | Rejected "'r option"

type_synonym 'r promises = "'r promise list"

text \<open>
  What a thenable does in the end: it fulfils with a value (after every nested thenable
  has been unwrapped, a plain one), it rejects with a reason, or it never settles.
\<close>

datatype 'r outcome = Fulfils "'r option" | Rejects "'r option" | Never

text \<open>
  The argument of the built-in \<^verbatim>\<open>resolve\<close>: a value that is not a thenable
  (\<open>Plain None\<close> is \<^verbatim>\<open>undefined\<close>), or a thenable.
\<close>

datatype 'r resolution = Plain "'r option" | Thenable "'r outcome"

text \<open>
  The state a pending promise takes when it is resolved: fulfilled with a plain value,
  and the thenable's own outcome otherwise.
\<close>

fun resolved_state :: "'r resolution \<Rightarrow> 'r promise" where
  "resolved_state (Plain x) = Fulfilled x"
| "resolved_state (Thenable (Fulfils x)) = Fulfilled x"
| "resolved_state (Thenable (Rejects e)) = Rejected e"
| "resolved_state (Thenable Never) = Locked"

text \<open>
  The two settlement functions a \<^verbatim>\<open>new Promise\<close> executor receives for the promise at
  index \<open>p\<close>. On a promise that is settled or locked they do nothing. A rejection keeps
  its reason as it is.
\<close>

definition promise_resolve :: "nat \<Rightarrow> 'r resolution \<Rightarrow> 'r promises \<Rightarrow> 'r promises" where
  "promise_resolve p v ps =
     (if p < length ps \<and> ps ! p = Pending then ps[p := resolved_state v] else ps)"

definition promise_reject :: "nat \<Rightarrow> 'r option \<Rightarrow> 'r promises \<Rightarrow> 'r promises" where
  "promise_reject p v ps =
     (if p < length ps \<and> ps ! p = Pending then ps[p := Rejected v] else ps)"

subsection \<open>The types of ModalContext.tsx\<close>

record ('m, 'p) ShowModalParams =
  modal :: 'm
  dismissible :: "bool option"
  data :: "'p option"

record 'r PromiseRef =
  resolve :: "'r resolution \<Rightarrow> 'r promises \<Rightarrow> 'r promises"
  reject :: "'r option \<Rightarrow> 'r promises \<Rightarrow> 'r promises"

text \<open>
  The state of one mounted provider: the \<^verbatim>\<open>useState\<close> cell \<^verbatim>\<open>renderModal\<close>, the
  \<^verbatim>\<open>useRef\<close> cell \<^verbatim>\<open>promiseRef.current\<close>, and the heap of the promises it created.
\<close>

record ('m, 'p, 'r) host =
  renderModal :: "('m, 'p) ShowModalParams option"
  promiseRef :: "'r PromiseRef option"
  promises :: "'r promises"

record ('m, 'p, 'r) AsyncModalProps =
  onClose :: "'r resolution \<Rightarrow> ('m, 'p, 'r) host \<Rightarrow> ('m, 'p, 'r) host"
  dismissible :: bool
  data :: "'p option"

record ('m, 'p, 'r) ModalContextType =
  showModal :: "('m, 'p) ShowModalParams \<Rightarrow> ('m, 'p, 'r) host \<Rightarrow> nat \<times> ('m, 'p, 'r) host"

text \<open>A JSX element \<^verbatim>\<open><renderModal.modal ... />\<close>: a component and its props.\<close>

record ('m, 'p, 'r) element =
  component :: 'm
  props :: "('m, 'p, 'r) AsyncModalProps"

text \<open>What \<^verbatim>\<open>AsyncModalProvider\<close> returns: the context value it provides, the wrapped
  children, and the dialog element or \<^verbatim>\<open>null\<close>.\<close>

record ('c, 'm, 'p, 'r) provided =
  contextValue :: "('m, 'p, 'r) ModalContextType"
  children :: 'c
  modalElement :: "('m, 'p, 'r) element option"

subsection \<open>The provider\<close>

text \<open>\<^verbatim>\<open>useState(null)\<close>, \<^verbatim>\<open>useRef(null)\<close>, and no promise created yet.\<close>

definition initial :: "('m, 'p, 'r) host" where
  "initial = \<lparr>renderModal = None, promiseRef = None, promises = []\<rparr>"

text \<open>
  \<^verbatim>\<open>showModal\<close> (lines 41 to 47): store the params, create a promise (a fresh pending
  cell at the end of the heap), and let the executor store the two settlement functions
  of that promise in \<^verbatim>\<open>promiseRef.current\<close>. The result is the promise.
\<close>

definition showModal ::
  "('m, 'p) ShowModalParams \<Rightarrow> ('m, 'p, 'r) host \<Rightarrow> nat \<times> ('m, 'p, 'r) host" where
  "showModal params st =
     (let st1 = st\<lparr>renderModal := Some params\<rparr>;
          p = length (promises st1);
          st2 = st1\<lparr>promises := promises st1 @ [Pending]\<rparr>;
          st3 = st2\<lparr>promiseRef :=
                       Some \<lparr>resolve = promise_resolve p, reject = promise_reject p\<rparr>\<rparr>
      in (p, st3))"

text \<open>
  \<^verbatim>\<open>handleClose\<close> (lines 49 to 57). It reads \<^verbatim>\<open>promiseRef.current\<close> when it is called;
  a call with no argument has the result \<open>Plain None\<close>.
\<close>

definition handleClose :: "'r resolution \<Rightarrow> ('m, 'p, 'r) host \<Rightarrow> ('m, 'p, 'r) host" where
  "handleClose result st =
     (let st1 = (case promiseRef st of
                   Some current \<Rightarrow> st\<lparr>promises := resolve current result (promises st)\<rparr>
                 | None \<Rightarrow> st);
          st2 = st1\<lparr>promiseRef := None\<rparr>
      in st2\<lparr>renderModal := None\<rparr>)"

definition memValue :: "('m, 'p, 'r) ModalContextType" where
  "memValue = \<lparr>ModalContextType.showModal = showModal\<rparr>"

text \<open>The operator \<^verbatim>\<open>??\<close>.\<close>

definition nullish :: "'a option \<Rightarrow> 'a \<Rightarrow> 'a" where
  "nullish x dflt = (case x of None \<Rightarrow> dflt | Some v \<Rightarrow> v)"

text \<open>The render function of \<^verbatim>\<open>AsyncModalProvider\<close> (lines 63 to 75).\<close>

definition AsyncModalProvider :: "'c \<Rightarrow> ('m, 'p, 'r) host \<Rightarrow> ('c, 'm, 'p, 'r) provided" where
  "AsyncModalProvider chn st =
     \<lparr>contextValue = memValue,
      children = chn,
      modalElement =
        (case renderModal st of
           Some rm \<Rightarrow>
             Some \<lparr>component = modal rm,
                   props = \<lparr>onClose = handleClose,
                            dismissible = nullish (ShowModalParams.dismissible rm) True,
                            data = ShowModalParams.data rm\<rparr>\<rparr>
         | None \<Rightarrow> None)\<rparr>"

subsection \<open>Sequences of operations on one host\<close>

datatype ('m, 'p, 'r) operation =
  Request "('m, 'p) ShowModalParams"
| Complete "'r resolution"

fun step :: "('m, 'p, 'r) operation \<Rightarrow> ('m, 'p, 'r) host \<Rightarrow> ('m, 'p, 'r) host" where
  "step (Request params) st = snd (showModal params st)"
| "step (Complete result) st = handleClose result st"

fun run :: "('m, 'p, 'r) operation list \<Rightarrow> ('m, 'p, 'r) host \<Rightarrow> ('m, 'p, 'r) host" where
  "run [] st = st"
| "run (x # xs) st = run xs (step x st)"

subsection \<open>The hook\<close>

datatype error = Error string

text \<open>
  \<^verbatim>\<open>useContext(ModalContext)\<close>: the value of the nearest enclosing provider, or the
  default given to \<^verbatim>\<open>createContext\<close> when there is none. The position of the calling
  component is the list of the values of the providers that enclose it, nearest first.
\<close>

definition useContext :: "'v \<Rightarrow> 'v list \<Rightarrow> 'v" where
  "useContext dflt enclosing = (case enclosing of [] \<Rightarrow> dflt | v # _ \<Rightarrow> v)"

definition useAsyncModal ::
  "('m, 'p, 'r) ModalContextType option list \<Rightarrow> error + ('m, 'p, 'r) ModalContextType" where
  "useAsyncModal enclosing =
     (let context = useContext None enclosing
      in case context of
           None \<Rightarrow> Inl (Error ''useAsyncModal must be used within a AsyncModalProvider'')
         | Some c \<Rightarrow> Inr c)"

subsection \<open>Predicates on the state of a host\<close>

text \<open>The handle the executor of \<^verbatim>\<open>showModal\<close> stores for the promise at index \<open>p\<close>.\<close>

definition settlers :: "nat \<Rightarrow> 'r PromiseRef" where
  "settlers p = \<lparr>resolve = promise_resolve p, reject = promise_reject p\<rparr>"

text \<open>
  The states a host can be in: the handle is present exactly when a descriptor is held,
  and a present handle settles the promise created last, which is still pending.
\<close>

definition wellformed :: "('m, 'p, 'r) host \<Rightarrow> bool" where
  "wellformed st =
     (case promiseRef st of
        None \<Rightarrow> renderModal st = None
      | Some h \<Rightarrow> renderModal st \<noteq> None \<and> promises st \<noteq> []
                  \<and> h = settlers (length (promises st) - 1)
                  \<and> last (promises st) = Pending)"

text \<open>
  The promise at index \<open>q\<close> is pending and out of reach: the handle, if there is one,
  settles another promise.
\<close>

definition abandoned :: "nat \<Rightarrow> ('m, 'p, 'r) host \<Rightarrow> bool" where
  "abandoned q st =
     (q < length (promises st) \<and> promises st ! q = Pending
      \<and> (case promiseRef st of None \<Rightarrow> True | Some h \<Rightarrow> \<exists>p. p \<noteq> q \<and> h = settlers p))"

section \<open>Properties\<close>

subsection \<open>What the two operations change\<close>

lemma showModal_fst: "fst (showModal params st) = length (promises st)"
  by (simp add: showModal_def Let_def)

lemma showModal_renderModal: "renderModal (snd (showModal params st)) = Some params"
  by (simp add: showModal_def Let_def)

lemma showModal_promises: "promises (snd (showModal params st)) = promises st @ [Pending]"
  by (simp add: showModal_def Let_def)

lemma showModal_promiseRef:
  "promiseRef (snd (showModal params st)) = Some (settlers (length (promises st)))"
  by (simp add: showModal_def Let_def settlers_def)

lemma handleClose_promises:
  "promises (handleClose result st) =
     (case promiseRef st of None \<Rightarrow> promises st | Some h \<Rightarrow> resolve h result (promises st))"
  by (simp add: handleClose_def Let_def split: option.split)

lemma handleClose_renderModal: "renderModal (handleClose result st) = None"
  by (simp add: handleClose_def Let_def split: option.split)

lemma handleClose_promiseRef: "promiseRef (handleClose result st) = None"
  by (simp add: handleClose_def Let_def split: option.split)

lemma resolve_settlers: "resolve (settlers p) = promise_resolve p"
  by (simp add: settlers_def)

lemma length_promise_resolve: "length (promise_resolve p v ps) = length ps"
  by (simp add: promise_resolve_def)

lemma promise_resolve_other: "p \<noteq> q \<Longrightarrow> promise_resolve p v ps ! q = ps ! q"
  by (simp add: promise_resolve_def)

lemma promise_resolve_set: "set (promise_resolve p v ps) \<subseteq> insert (resolved_state v) (set ps)"
  by (auto simp: promise_resolve_def dest: set_update_subset_insert [THEN subsetD])

subsection \<open>Sequences\<close>

lemma run_append: "run (xs @ ys) st = run ys (run xs st)"
  by (induction xs arbitrary: st) simp_all

lemma run_snoc: "run (xs @ [x]) st = step x (run xs st)"
  by (simp add: run_append)

lemma held_after_request:
  "renderModal (run xs initial) = Some d \<Longrightarrow> xs \<noteq> [] \<and> last xs = Request d"
proof (cases xs rule: rev_cases)
  case Nil
  assume "renderModal (run xs initial) = Some d"
  with Nil show ?thesis by (simp add: initial_def)
next
  case (snoc ys y)
  assume "renderModal (run xs initial) = Some d"
  with snoc show ?thesis
    by (cases y) (simp_all add: run_snoc showModal_renderModal handleClose_renderModal)
qed

subsection \<open>The invariant of the reachable states\<close>

lemma wellformed_initial: "wellformed initial"
  by (simp add: wellformed_def initial_def)

lemma wellformed_showModal: "wellformed st \<Longrightarrow> wellformed (snd (showModal params st))"
  by (simp add: wellformed_def showModal_promises showModal_promiseRef showModal_renderModal)

lemma wellformed_handleClose: "wellformed (handleClose result st)"
  by (simp add: wellformed_def handleClose_promiseRef handleClose_renderModal)

lemma resolved_state_Rejected: "(resolved_state v = Rejected e) = (v = Thenable (Rejects e))"
  by (cases v rule: resolved_state.cases) simp_all

lemma wellformed_step: "wellformed st \<Longrightarrow> wellformed (step x st)"
  by (cases x) (simp_all add: wellformed_showModal wellformed_handleClose)

lemma wellformed_run: "wellformed st \<Longrightarrow> wellformed (run xs st)"
  by (induction xs arbitrary: st) (simp_all add: wellformed_step)

subsection \<open>A promise out of reach stays pending\<close>

lemma abandoned_showModal: "abandoned q st \<Longrightarrow> abandoned q (snd (showModal params st))"
  by (auto simp: abandoned_def showModal_promises showModal_promiseRef nth_append)

lemma abandoned_handleClose: "abandoned q st \<Longrightarrow> abandoned q (handleClose result st)"
  by (auto simp: abandoned_def handleClose_promises handleClose_promiseRef resolve_settlers
      length_promise_resolve promise_resolve_other split: option.splits)

lemma abandoned_step: "abandoned q st \<Longrightarrow> abandoned q (step x st)"
  by (cases x) (simp_all add: abandoned_showModal abandoned_handleClose)

lemma abandoned_run: "abandoned q st \<Longrightarrow> abandoned q (run xs st)"
  by (induction xs arbitrary: st) (simp_all add: abandoned_step)

lemma abandoned_by_second_request:
  "abandoned (fst (showModal d1 st)) (snd (showModal d2 (snd (showModal d1 st))))"
  by (simp add: abandoned_def showModal_fst showModal_promises showModal_promiseRef nth_append)
    (metis n_not_Suc_n)

subsection \<open>Where a rejected promise comes from\<close>

lemma rejected_by_adoption:
  "Rejected e \<in> set (promises (run xs initial)) \<Longrightarrow> Complete (Thenable (Rejects e)) \<in> set xs"
proof (induction xs rule: rev_induct)
  case Nil
  then show ?case by (simp add: initial_def)
next
  case (snoc x xs)
  show ?case
  proof (cases x)
    case (Request params)
    with snoc show ?thesis
      by (simp add: run_snoc showModal_promises)
  next
    case (Complete v)
    have wf: "wellformed (run xs initial)"
      by (rule wellformed_run [OF wellformed_initial])
    have sub: "set (promises (run (xs @ [x]) initial))
                 \<subseteq> insert (resolved_state v) (set (promises (run xs initial)))"
    proof (cases "promiseRef (run xs initial)")
      case None
      with Complete show ?thesis
        by (auto simp: run_snoc handleClose_promises)
    next
      case (Some h)
      with wf have "resolve h = promise_resolve (length (promises (run xs initial)) - 1)"
        by (simp add: wellformed_def resolve_settlers)
      with Some Complete show ?thesis
        by (simp add: run_snoc handleClose_promises promise_resolve_set)
    qed
    from snoc.prems sub
    have "Rejected e = resolved_state v \<or> Rejected e \<in> set (promises (run xs initial))"
      by auto
    then show ?thesis
    proof
      assume "Rejected e = resolved_state v"
      then have "v = Thenable (Rejects e)"
        by (simp add: resolved_state_Rejected [symmetric])
      with Complete show ?thesis by simp
    next
      assume "Rejected e \<in> set (promises (run xs initial))"
      then show ?thesis using snoc.IH by simp
    qed
  qed
qed

subsection \<open>Requests\<close>

text \<open>
  C1: after any sequence of operations, a request for \<open>d1\<close> followed by a request for
  \<open>d2\<close>, with no completion in between, leaves \<open>d2\<close> as the held descriptor and the
  view of \<open>d2\<close> as the rendered dialog. The two requests return different promises, and
  the promise of the first request is pending after every sequence of later operations:
  nothing resolves it and nothing rejects it.
\<close>

theorem second_request_abandons_first:
  "let st0 = run before initial;
       (p1, st1) = showModal d1 st0;
       (p2, st2) = showModal d2 st1;
       st3 = run later st2
   in renderModal st2 = Some d2
      \<and> map_option component (modalElement (AsyncModalProvider chn st2)) = Some (modal d2)
      \<and> p1 \<noteq> p2
      \<and> p1 < length (promises st3)
      \<and> promises st1 ! p1 = Pending
      \<and> promises st3 ! p1 = Pending"
proof -
  define st0 :: "('a, 'b, 'c) host" where "st0 = run before initial"
  define st1 where "st1 = snd (showModal d1 st0)"
  define st2 where "st2 = snd (showModal d2 st1)"
  define p1 where "p1 = fst (showModal d1 st0)"
  have ab: "abandoned p1 (run later st2)"
    unfolding p1_def st2_def st1_def by (rule abandoned_run [OF abandoned_by_second_request])
  have held: "renderModal st2 = Some d2"
    by (simp add: st2_def showModal_renderModal)
  have view: "map_option component (modalElement (AsyncModalProvider chn st2)) = Some (modal d2)"
    by (simp add: AsyncModalProvider_def held)
  have fresh: "p1 \<noteq> fst (showModal d2 st1)"
    by (simp add: p1_def st1_def showModal_fst showModal_promises)
  have pend: "promises st1 ! p1 = Pending"
    by (simp add: p1_def st1_def showModal_fst showModal_promises)
  from ab held view fresh pend show ?thesis
    by (simp add: Let_def split_beta abandoned_def st0_def st1_def st2_def p1_def)
qed

text \<open>
  C4: when the descriptor passed to a request leaves \<^verbatim>\<open>dismissible\<close> unset, the rendered
  view receives \<^verbatim>\<open>dismissible = true\<close>; when the descriptor sets it to \<^verbatim>\<open>false\<close>, the
  view receives \<^verbatim>\<open>false\<close>.
\<close>

theorem dismissible_defaults_to_true:
  "(ShowModalParams.dismissible d = None \<longrightarrow>
      map_option (dismissible \<circ> props) (modalElement (AsyncModalProvider chn (snd (showModal d st))))
        = Some True)
   \<and> (ShowModalParams.dismissible d = Some False \<longrightarrow>
      map_option (dismissible \<circ> props) (modalElement (AsyncModalProvider chn (snd (showModal d st))))
        = Some False)"
  by (simp add: AsyncModalProvider_def showModal_renderModal nullish_def)

theorem dismissible_defaults_to_true_witness:
  "map_option (dismissible \<circ> props)
     (modalElement (AsyncModalProvider ()
        (snd (showModal \<lparr>modal = ''ConfirmDialog'', ShowModalParams.dismissible = None,
              ShowModalParams.data = Some ''x''\<rparr>
           (initial :: (string, string, bool) host))))) = Some True
   \<and> map_option (dismissible \<circ> props)
     (modalElement (AsyncModalProvider ()
        (snd (showModal \<lparr>modal = ''ConfirmDialog'', ShowModalParams.dismissible = Some False,
              ShowModalParams.data = Some ''x''\<rparr>
           (initial :: (string, string, bool) host))))) = Some False"
  using
    dismissible_defaults_to_true
      [where d = "\<lparr>modal = ''ConfirmDialog'', ShowModalParams.dismissible = None,
              ShowModalParams.data = Some ''x''\<rparr>"
          and chn = "()" and st = "initial :: (string, string, bool) host"]
    dismissible_defaults_to_true
      [where d = "\<lparr>modal = ''ConfirmDialog'', ShowModalParams.dismissible = Some False,
              ShowModalParams.data = Some ''x''\<rparr>"
          and chn = "()" and st = "initial :: (string, string, bool) host"]
  by simp

text \<open>
  C8: the rendered view receives as its \<^verbatim>\<open>data\<close> prop exactly the \<^verbatim>\<open>data\<close> of the
  descriptor passed to the request, whatever the payload is; when the descriptor has no
  \<^verbatim>\<open>data\<close>, the prop is \<^verbatim>\<open>undefined\<close> as well.
\<close>

theorem data_passed_unchanged:
  "map_option (data \<circ> props) (modalElement (AsyncModalProvider chn (snd (showModal d st))))
     = Some (ShowModalParams.data d)"
  by (simp add: AsyncModalProvider_def showModal_renderModal)

subsection \<open>Completion\<close>

text \<open>
  C2 (amended): the \<^verbatim>\<open>onClose\<close> handed to a view is \<^verbatim>\<open>handleClose\<close> itself, the same
  function for every view, bound to no request: it reads the handle when it is called. In
  every state reached from the initial one in which a descriptor \<open>d\<close> is held, the last
  operation was the request for \<open>d\<close>, and \<^verbatim>\<open>onClose\<close>, whether taken from the element
  rendered now or from an element rendered in any other state, resolves the promise that
  this last request returned and changes no other promise of the heap: a result that is
  not a thenable fulfils the promise with that result, a thenable gives it its own outcome.
\<close>

theorem onClose_settles_latest_request:
  "renderModal (run xs initial) = Some d \<Longrightarrow>
     xs \<noteq> [] \<and> last xs = Request d
     \<and> (let (p, st) = showModal d (run (butlast xs) initial)
        in run xs initial = st
           \<and> p < length (promises st) \<and> promises st ! p = Pending
           \<and> (case modalElement (AsyncModalProvider chn st) of
                 None \<Rightarrow> False
               | Some e \<Rightarrow> component e = modal d
                   \<and> onClose (props e) = handleClose
                   \<and> promises (onClose (props e) v st) = (promises st)[p := resolved_state v]
                   \<and> promises (onClose (props e) (Plain x) st) = (promises st)[p := Fulfilled x])
           \<and> (case modalElement (AsyncModalProvider chn' st') of
                 None \<Rightarrow> True
               | Some e' \<Rightarrow>
                   promises (onClose (props e') v st) = (promises st)[p := resolved_state v]))"
proof -
  assume held: "renderModal (run xs initial) = Some d"
  then have xs: "xs \<noteq> []" "last xs = Request d"
    using held_after_request by blast+
  then have "xs = butlast xs @ [Request d]"
    by (metis append_butlast_last_id)
  then have "run xs initial = step (Request d) (run (butlast xs) initial)"
    by (metis run_snoc)
  then have eq: "run xs initial = snd (showModal d (run (butlast xs) initial))"
    by simp
  let ?st0 = "run (butlast xs) initial"
  have settle: "promises (handleClose w (snd (showModal d ?st0)))
        = (promises (snd (showModal d ?st0)))[fst (showModal d ?st0) := resolved_state w]"
    for w
    by (simp add: handleClose_promises showModal_promiseRef showModal_promises showModal_fst
        resolve_settlers promise_resolve_def)
  have now: "promises (handleClose (Plain x) (snd (showModal d ?st0)))
        = (promises (snd (showModal d ?st0)))[fst (showModal d ?st0) := Fulfilled x]"
    using settle [of "Plain x"] by simp
  have other: "(case modalElement (AsyncModalProvider chn' st') of
                 None \<Rightarrow> True
               | Some e' \<Rightarrow> promises (onClose (props e') v (snd (showModal d ?st0)))
                   = (promises (snd (showModal d ?st0)))
                       [fst (showModal d ?st0) := resolved_state v])"
    using settle [of v] by (simp add: AsyncModalProvider_def split: option.split)
  from xs eq settle [of v] now other show ?thesis
    by (simp add: Let_def split_beta AsyncModalProvider_def showModal_renderModal
        showModal_fst showModal_promises split: option.splits)
qed

theorem onClose_settles_latest_request_witness:
  "renderModal
     (run [Request \<lparr>modal = ''First'', ShowModalParams.dismissible = None,
              ShowModalParams.data = None\<rparr>,
           Request \<lparr>modal = ''ConfirmDialog'', ShowModalParams.dismissible = None,
              ShowModalParams.data = Some ''x''\<rparr>]
        (initial :: (string, string, bool) host))
     = Some \<lparr>modal = ''ConfirmDialog'', ShowModalParams.dismissible = None,
              ShowModalParams.data = Some ''x''\<rparr>
   \<and> (let (p, st) =
          showModal \<lparr>modal = ''ConfirmDialog'', ShowModalParams.dismissible = None,
              ShowModalParams.data = Some ''x''\<rparr>
            (run [Request \<lparr>modal = ''First'', ShowModalParams.dismissible = None,
              ShowModalParams.data = None\<rparr>]
               (initial :: (string, string, bool) host))
      in p = 1
         \<and> (case modalElement (AsyncModalProvider () st) of
               None \<Rightarrow> False
             | Some e \<Rightarrow> component e = ''ConfirmDialog''
                 \<and> promises (onClose (props e) (Plain (Some True)) st)
                     = [Pending, Fulfilled (Some True)])
         \<and> (case modalElement (AsyncModalProvider ()
                   (snd (showModal \<lparr>modal = ''First'', ShowModalParams.dismissible = None,
              ShowModalParams.data = None\<rparr>
                      (initial :: (string, string, bool) host)))) of
               None \<Rightarrow> False
             | Some e' \<Rightarrow> component e' = ''First''
                 \<and> promises (onClose (props e') (Plain (Some True)) st)
                     = [Pending, Fulfilled (Some True)]))"
  using
    onClose_settles_latest_request
      [where xs = "[Request \<lparr>modal = ''First'', ShowModalParams.dismissible = None,
              ShowModalParams.data = None\<rparr>,
            Request \<lparr>modal = ''ConfirmDialog'', ShowModalParams.dismissible = None,
              ShowModalParams.data = Some ''x''\<rparr>]"
          and d = "\<lparr>modal = ''ConfirmDialog'', ShowModalParams.dismissible = None,
              ShowModalParams.data = Some ''x''\<rparr>"
          and chn = "()" and v = "Plain (Some True)" and x = "Some True"
          and chn' = "()"
          and st' = "snd (showModal \<lparr>modal = ''First'', ShowModalParams.dismissible = None,
              ShowModalParams.data = None\<rparr>
                      (initial :: (string, string, bool) host))"]
  by (simp add: showModal_def initial_def Let_def AsyncModalProvider_def)

text \<open>
  The claim as it is worded fails: the \<^verbatim>\<open>onClose\<close> handed to the view of a first request,
  called after a second request, fulfils the promise of the second request and leaves
  the promise of the request that mounted its view pending.
\<close>

theorem onClose_of_replaced_view_counterexample:
  "(let (pA, stA) = showModal \<lparr>modal = ''First'', ShowModalParams.dismissible = None,
              ShowModalParams.data = None\<rparr>
                      (initial :: (string, string, bool) host);
        (pB, stB) = showModal \<lparr>modal = ''ConfirmDialog'', ShowModalParams.dismissible = None,
              ShowModalParams.data = Some ''x''\<rparr> stA
    in pA = 0 \<and> pB = 1
       \<and> (case modalElement (AsyncModalProvider () stA) of
             None \<Rightarrow> False
           | Some eA \<Rightarrow> component eA = ''First''
               \<and> promises (onClose (props eA) (Plain (Some True)) stB)
                   = [Pending, Fulfilled (Some True)]))"
  by (simp add: showModal_def initial_def Let_def AsyncModalProvider_def handleClose_def
      promise_resolve_def)

text \<open>
  C3 (amended): in every state, the promise returned by a request is pending, and invoking
  the completion callback next with a value \<open>v\<close> that is not a thenable fulfils that
  promise with \<open>v\<close>; invoking it with no argument (the result is \<^verbatim>\<open>undefined\<close>) fulfils
  it with \<^verbatim>\<open>undefined\<close>. With a thenable the promise takes the outcome of the thenable.
\<close>

theorem handleClose_resolves_with_result:
  "let (p, st1) = showModal d st
   in promises st1 ! p = Pending
      \<and> promises (handleClose (Plain (Some v)) st1) ! p = Fulfilled (Some v)
      \<and> promises (handleClose (Plain None) st1) ! p = Fulfilled None
      \<and> promises (handleClose (Thenable out) st1) ! p = resolved_state (Thenable out)"
  by (simp add: Let_def split_beta handleClose_promises showModal_promiseRef showModal_promises
      showModal_fst resolve_settlers promise_resolve_def)

text \<open>
  The claim as it is worded (every value) fails: a completion with a thenable that rejects
  leaves the promise of the request rejected, and one with a thenable that never settles
  leaves it unsettled.
\<close>

theorem handleClose_thenable_counterexample:
  "promises (handleClose (Thenable (Rejects (Some False)))
       (snd (showModal \<lparr>modal = ''ConfirmDialog'', ShowModalParams.dismissible = None,
              ShowModalParams.data = Some ''x''\<rparr>
          (initial :: (string, string, bool) host))))
     ! fst (showModal \<lparr>modal = ''ConfirmDialog'', ShowModalParams.dismissible = None,
              ShowModalParams.data = Some ''x''\<rparr>
          (initial :: (string, string, bool) host))
     = Rejected (Some False)
   \<and> promises (handleClose (Thenable Never)
       (snd (showModal \<lparr>modal = ''ConfirmDialog'', ShowModalParams.dismissible = None,
              ShowModalParams.data = Some ''x''\<rparr>
          (initial :: (string, string, bool) host))))
     ! fst (showModal \<lparr>modal = ''ConfirmDialog'', ShowModalParams.dismissible = None,
              ShowModalParams.data = Some ''x''\<rparr>
          (initial :: (string, string, bool) host))
     = Locked"
  by (simp add: showModal_def initial_def Let_def handleClose_def promise_resolve_def)

text \<open>
  C6: after the completion callback has run, with or without a result, the held state is
  empty, the handle is cleared and no dialog element is rendered; this holds in every
  state, whether or not a handle was present.
\<close>

theorem handleClose_clears:
  "renderModal (handleClose result st) = None
   \<and> promiseRef (handleClose result st) = None
   \<and> modalElement (AsyncModalProvider chn (handleClose result st)) = None"
  by (simp add: handleClose_def AsyncModalProvider_def Let_def split: option.split)

text \<open>
  C7: in every state, a completion that follows a completion changes nothing: the state
  after the two, and with it the heap of promises, is the state after the first.
\<close>

theorem handleClose_idempotent:
  "handleClose r2 (handleClose r1 st) = handleClose r1 st
   \<and> run [Complete r1, Complete r2] st = run [Complete r1] st
   \<and> promises (handleClose r2 (handleClose r1 st)) = promises (handleClose r1 st)"
  by (simp add: handleClose_def Let_def split: option.split)

subsection \<open>The hook\<close>

text \<open>
  C5: with no enclosing provider, and also under a provider whose value is \<^verbatim>\<open>null\<close>, the
  hook throws the error; under a provider with a value it returns that value, which for
  \<^verbatim>\<open>AsyncModalProvider\<close> is the object holding \<^verbatim>\<open>showModal\<close>. At every position the hook
  does one of the two, according to the value \<^verbatim>\<open>useContext\<close> finds.
\<close>

theorem useAsyncModal_outcomes:
  "useAsyncModal [] = Inl (Error ''useAsyncModal must be used within a AsyncModalProvider'')
   \<and> useAsyncModal (None # outer) = Inl (Error ''useAsyncModal must be used within a AsyncModalProvider'')
   \<and> useAsyncModal (Some c # outer) = Inr c
   \<and> useAsyncModal (Some (contextValue (AsyncModalProvider chn st)) # outer) = Inr memValue
   \<and> (useAsyncModal env = Inl (Error ''useAsyncModal must be used within a AsyncModalProvider'')
        \<and> useContext None env = None
      \<or> (\<exists>c'. useAsyncModal env = Inr c' \<and> useContext None env = Some c'))"
  by (simp add: useAsyncModal_def useContext_def AsyncModalProvider_def split: list.split option.split)

subsection \<open>Every reachable state\<close>

text \<open>
  C9: in every state reached from the initial one by requests and completions, the handle
  is present exactly when a descriptor is held, and a dialog element is rendered exactly
  then. The held state is a single slot: after a request it holds the descriptor of that
  request and no other, after a completion it is empty.
\<close>

theorem handle_matches_held_state:
  "(promiseRef (run xs initial) = None) = (renderModal (run xs initial) = None)
   \<and> (modalElement (AsyncModalProvider chn (run xs initial)) = None)
       = (promiseRef (run xs initial) = None)
   \<and> renderModal (run (xs @ [Request d]) initial) = Some d
   \<and> renderModal (run (xs @ [Complete r]) initial) = None"
proof -
  have "wellformed (run xs initial)"
    by (rule wellformed_run [OF wellformed_initial])
  then have iff: "(promiseRef (run xs initial) = None) = (renderModal (run xs initial) = None)"
    by (auto simp: wellformed_def split: option.splits)
  then show ?thesis
    by (simp add: run_snoc showModal_renderModal handleClose_renderModal AsyncModalProvider_def
        split: option.split)
qed

text \<open>
  C10 (amended): the completion never calls the \<^verbatim>\<open>reject\<close> function of the handle
  (replacing it by any other function leaves the outcome the same). In every state reached
  from the initial one by requests and completions, a promise of the heap is rejected only
  if some completion was called with a thenable that rejects, and then with the reason of
  that thenable: when no completion gets such a result, every promise is fulfilled or
  stays unsettled.
\<close>

theorem rejected_only_by_thenable:
  "(Rejected e \<in> set (promises (run xs initial))
      \<longrightarrow> Complete (Thenable (Rejects e)) \<in> set xs)
   \<and> handleClose result (st\<lparr>promiseRef := Some (h\<lparr>reject := g\<rparr>)\<rparr>)
       = handleClose result (st\<lparr>promiseRef := Some h\<rparr>)"
  using rejected_by_adoption [of e xs]
  by (simp add: handleClose_def Let_def)

theorem rejected_only_by_thenable_witness:
  "Rejected (Some False)
     \<in> set (promises
         (run [Request \<lparr>modal = ''First'', ShowModalParams.dismissible = None,
              ShowModalParams.data = None\<rparr>,
               Complete (Thenable (Rejects (Some False))),
               Request \<lparr>modal = ''ConfirmDialog'', ShowModalParams.dismissible = None,
              ShowModalParams.data = Some ''x''\<rparr>]
            (initial :: (string, string, bool) host)))
   \<and> Complete (Thenable (Rejects (Some False)))
     \<in> set [Request \<lparr>modal = ''First'', ShowModalParams.dismissible = None,
              ShowModalParams.data = None\<rparr>,
            Complete (Thenable (Rejects (Some False))),
            Request \<lparr>modal = ''ConfirmDialog'', ShowModalParams.dismissible = None,
              ShowModalParams.data = Some ''x''\<rparr>]"
  using
    rejected_only_by_thenable
      [where e = "Some False"
          and xs = "[Request \<lparr>modal = ''First'', ShowModalParams.dismissible = None,
              ShowModalParams.data = None\<rparr>,
               Complete (Thenable (Rejects (Some False))),
               Request \<lparr>modal = ''ConfirmDialog'', ShowModalParams.dismissible = None,
              ShowModalParams.data = Some ''x''\<rparr>]"
          and st = "(initial :: (string, string, bool) host)"]
  by (simp add: showModal_def initial_def Let_def handleClose_def promise_resolve_def)

text \<open>
  The claim as it is worded (no promise is ever rejected) fails: after a request and a
  completion with a thenable that rejects, the promise of the request is rejected.
\<close>

theorem rejected_promise_counterexample:
  "promises
     (run [Request \<lparr>modal = ''ConfirmDialog'', ShowModalParams.dismissible = None,
              ShowModalParams.data = Some ''x''\<rparr>,
           Complete (Thenable (Rejects (Some False)))]
        (initial :: (string, string, bool) host))
     = [Rejected (Some False)]"
  by (simp add: showModal_def initial_def Let_def handleClose_def promise_resolve_def)

end
